theory Spec2Isabelle
  imports Complex_Main
begin

section \<open>The application state controller (src/App.tsx, src/types.ts)\<close>

subsection \<open>Client-side data (src/types.ts)\<close>

text \<open>
  A property declared \<^verbatim>\<open>p?: T | null\<close> has three shapes at run time: absent
  (\<^verbatim>\<open>undefined\<close>), \<^verbatim>\<open>null\<close>, or a value.
\<close>

datatype 'a nullable = Undefined | Null | Val 'a

text \<open>\<^verbatim>\<open>status: 'Pending' | 'Completed' | 'In Progress'\<close>\<close>

datatype JobStatus = Pending | Completed | In_Progress

text \<open>
  \<^verbatim>\<open>interface Job\<close>. Identifiers are JavaScript numbers holding the integer keys
  of the tables; \<^verbatim>\<open>===\<close> on them is equality of integers.
\<close>

record Job =
  job_id :: int
  job_unit :: string
  job_client_name :: string
  job_client_email :: string
  job_address :: string
  job_service_type :: string
  job_service_date :: string
  job_lockbox :: string
  job_status :: JobStatus
  job_checklist_notes :: "string option"
  job_created_at :: "string option"
  job_contractor_id :: "int nullable"
  job_contractor_name :: "string nullable"

text \<open>\<^verbatim>\<open>interface Contractor\<close>; the rating is the decimal the table holds.\<close>

record Contractor =
  ctr_id :: int
  ctr_name :: string
  ctr_specialty :: string
  ctr_rating :: rat
  ctr_avatar :: string

datatype UserRole = role_pm | role_contractor | role_admin

datatype TabId = tab_dashboard | tab_booking | tab_ai | tab_history | tab_contractors | tab_my_jobs | tab_admin_panel

text \<open>Of the library's \<^verbatim>\<open>Session\<close> the controller reads the user's id and email only.\<close>

record Session =
  session_user_id :: string
  session_user_email :: "string option"

text \<open>The \<^verbatim>\<open>useState\<close> cells of the \<^verbatim>\<open>App\<close> component.\<close>

record app_state =
  session :: "Session option"
  userRole :: "UserRole option"
  loading :: bool
  activeTab :: TabId
  isSidebarOpen :: bool
  jobs :: "Job list"
  contractors :: "Contractor list"

subsection \<open>Requests, responses and effects\<close>

text \<open>
  The object passed to \<^verbatim>\<open>.update(...)\<close>: the columns it sets. \<^verbatim>\<open>None\<close> is a
  column the object does not mention.
\<close>

record jobs_patch =
  patch_contractor_id :: "int option"
  patch_status :: "JobStatus option"

text \<open>The three queries the controller sends through the data access client.\<close>

datatype request =
    select_jobs          \<comment> \<open>\<^verbatim>\<open>from('jobs').select('*, contractors(name)').order('service_date', {ascending: false})\<close>\<close>
  | select_contractors   \<comment> \<open>\<^verbatim>\<open>from('contractors').select('*').order('name', {ascending: true})\<close>\<close>
  | update_jobs jobs_patch int  \<comment> \<open>\<^verbatim>\<open>from('jobs').update(patch).eq('id', jobId)\<close>\<close>

text \<open>
  What an awaited query resolves to: \<^verbatim>\<open>{ data, error }\<close>. Either may be
  \<^verbatim>\<open>null\<close>; an error object is always truthy, and so is a data array, even an empty one.
\<close>

record 'd response =
  response_data :: "'d option"
  response_error :: "string option"

text \<open>What a handler does besides changing the state: it logs, and it sends requests.\<close>

datatype effect = console_error string | sent request

text \<open>
  A row of the jobs query: the columns of the job and the embedded
  \<^verbatim>\<open>contractors(name)\<close>, which is \<^verbatim>\<open>null\<close>, one object or (never, with this query) an array.
\<close>

datatype joined_contractors = joined_null | joined_object string | joined_array "string list"

record fetched_job =
  fetched_columns :: Job
  fetched_contractors :: joined_contractors

subsection \<open>fetchJobs and fetchContractors\<close>

text \<open>
  An \<^verbatim>\<open>async\<close> function is cut at its \<^verbatim>\<open>await\<close>: the part before it gives the
  request, the part after it (named \<open>_resume\<close>) takes the response.
\<close>

text \<open>
  The body of \<^verbatim>\<open>data.map(job => ...)\<close>. \<^verbatim>\<open>newJob.contractors[0]?.name || null\<close> is
  \<^verbatim>\<open>null\<close> for an empty array and for an empty name (the empty string is falsy).
\<close>

definition processJob :: "fetched_job \<Rightarrow> Job" where
  "processJob job =
     (let newJob = fetched_columns job in
      case fetched_contractors job of
        joined_array names \<Rightarrow>
          newJob\<lparr>job_contractor_name :=
            (case names of [] \<Rightarrow> Null | n # _ \<Rightarrow> if n = [] then Null else Val n)\<rparr>
      | joined_object n \<Rightarrow> newJob\<lparr>job_contractor_name := Val n\<rparr>
      | joined_null \<Rightarrow> newJob)"

definition fetchJobs :: request where
  "fetchJobs = select_jobs"

definition fetchJobs_resume ::
  "app_state \<Rightarrow> fetched_job list response \<Rightarrow> app_state \<times> effect list" where
  "fetchJobs_resume st r =
     (if response_error r \<noteq> None then
        (st\<lparr>jobs := []\<rparr>, [console_error ''Error fetching jobs:''])
      else case response_data r of
        Some data \<Rightarrow> (st\<lparr>jobs := map processJob data\<rparr>, [])
      | None \<Rightarrow> (st, []))"

definition fetchContractors :: request where
  "fetchContractors = select_contractors"

definition fetchContractors_resume ::
  "app_state \<Rightarrow> Contractor list response \<Rightarrow> app_state \<times> effect list" where
  "fetchContractors_resume st r =
     (if response_error r \<noteq> None then
        (st\<lparr>contractors := []\<rparr>, [console_error ''Error fetching contractors:''])
      else case response_data r of
        Some data \<Rightarrow> (st\<lparr>contractors := data\<rparr>, [])
      | None \<Rightarrow> (st, []))"

subsection \<open>handleAssignJob and handleUpdateJobStatus\<close>

text \<open>
  Up to the \<^verbatim>\<open>await\<close>: the lookup in the cached contractors, the early return, the
  optimistic \<^verbatim>\<open>setJobs\<close>, and the request that is sent (none after the early return).
\<close>

definition handleAssignJob :: "app_state \<Rightarrow> int \<Rightarrow> int \<Rightarrow> app_state \<times> effect list" where
  "handleAssignJob st jobId contractorId =
     (case find (\<lambda>c. ctr_id c = contractorId) (contractors st) of
        None \<Rightarrow> (st, [])
      | Some contractor \<Rightarrow>
          (st\<lparr>jobs :=
              map (\<lambda>job. if job_id job = jobId
                          then job\<lparr>job_contractor_id := Val contractorId,
                                   job_contractor_name := Val (ctr_name contractor),
                                   job_status := In_Progress\<rparr>
                          else job) (jobs st)\<rparr>,
           [sent (update_jobs \<lparr>patch_contractor_id = Some contractorId,
                               patch_status = Some In_Progress\<rparr> jobId)]))"

text \<open>After the \<^verbatim>\<open>await\<close>: on an error, the log line and the call of \<^verbatim>\<open>fetchJobs()\<close>.\<close>

definition handleAssignJob_resume :: "app_state \<Rightarrow> unit response \<Rightarrow> app_state \<times> effect list" where
  "handleAssignJob_resume st r =
     (if response_error r \<noteq> None
      then (st, [console_error ''Failed to assign job:'', sent fetchJobs])
      else (st, []))"

definition handleUpdateJobStatus :: "app_state \<Rightarrow> int \<Rightarrow> JobStatus \<Rightarrow> app_state \<times> effect list" where
  "handleUpdateJobStatus st jobId status =
     (st\<lparr>jobs := map (\<lambda>job. if job_id job = jobId then job\<lparr>job_status := status\<rparr> else job)
                     (jobs st)\<rparr>,
      [sent (update_jobs \<lparr>patch_contractor_id = None, patch_status = Some status\<rparr> jobId)])"

definition handleUpdateJobStatus_resume ::
  "app_state \<Rightarrow> unit response \<Rightarrow> app_state \<times> effect list" where
  "handleUpdateJobStatus_resume st r =
     (if response_error r \<noteq> None
      then (st, [console_error ''Failed to update job status:'', sent fetchJobs])
      else (st, []))"

section \<open>The schema and policy layer (the SQL setup script)\<close>

subsection \<open>SQL values and three-valued logic\<close>

text \<open>
  A nullable SQL value is an \<open>option\<close>, \<open>None\<close> being NULL; a condition is a
  \<open>bool option\<close>. A comparison with NULL is NULL.
\<close>

type_synonym uuid = string
type_synonym timestamptz = int

definition sql_eq :: "'a option \<Rightarrow> 'a option \<Rightarrow> bool option" where
  "sql_eq a b = (case a of None \<Rightarrow> None | Some x \<Rightarrow> (case b of None \<Rightarrow> None | Some y \<Rightarrow> Some (x = y)))"

definition sql_le :: "rat option \<Rightarrow> rat option \<Rightarrow> bool option" where
  "sql_le a b = (case a of None \<Rightarrow> None | Some x \<Rightarrow> (case b of None \<Rightarrow> None | Some y \<Rightarrow> Some (x \<le> y)))"

definition sql_and :: "bool option \<Rightarrow> bool option \<Rightarrow> bool option" where
  "sql_and a b =
     (if a = Some False \<or> b = Some False then Some False
      else if a = Some True \<and> b = Some True then Some True
      else None)"

text \<open>
  \<^verbatim>\<open>x IN (v1, ..., vn)\<close> and \<^verbatim>\<open>x IN (SELECT ...)\<close>: true when some value equals
  \<open>x\<close>, else NULL when \<open>x\<close> or some value is NULL, else false; false on no values.
\<close>

definition sql_in :: "'a option \<Rightarrow> 'a option list \<Rightarrow> bool option" where
  "sql_in x vs =
     (if vs = [] then Some False
      else case x of
        None \<Rightarrow> None
      | Some v \<Rightarrow> if Some v \<in> set vs then Some True
                  else if None \<in> set vs then None
                  else Some False)"

text \<open>A \<^verbatim>\<open>WHERE\<close> clause keeps a row when its condition is true, not when it is NULL.\<close>

definition is_true :: "bool option \<Rightarrow> bool" where
  "is_true b = (b = Some True)"

text \<open>A \<^verbatim>\<open>CHECK\<close> constraint fails when its condition is false, not when it is NULL.\<close>

definition check_passes :: "bool option \<Rightarrow> bool" where
  "check_passes b = (b \<noteq> Some False)"

text \<open>The three tables of the script.\<close>

datatype relation = rel_profiles | rel_contractors | rel_jobs

text \<open>
  The ways a statement fails, under the names of PostgreSQL's error conditions. The last
  one is raised with the message
  \<^verbatim>\<open>infinite recursion detected in policy for relation "..."\<close>.
\<close>

datatype error =
    not_null_violation string
  | check_violation string
  | unique_violation string
  | foreign_key_violation string
  | cardinality_violation
  | numeric_value_out_of_range string
  | raise_exception string
  | infinite_recursion_in_policy relation

text \<open>The first failure in a list of outcomes, if any.\<close>

fun first_some :: "'a option list \<Rightarrow> 'a option" where
  "first_some [] = None"
| "first_some (None # xs) = first_some xs"
| "first_some (Some e # xs) = Some e"

subsection \<open>Tables\<close>

text \<open>
  A table is the list of its rows. A column is an \<open>option\<close> unless it is a primary key.
  Of \<^verbatim>\<open>auth.users\<close>, which the platform owns, the script reads
  \<^verbatim>\<open>id\<close>, \<^verbatim>\<open>email\<close>, \<^verbatim>\<open>created_at\<close> and \<^verbatim>\<open>raw_user_meta_data->>'role'\<close>.
\<close>

record users_row =
  users_id :: uuid
  users_email :: "string option"
  users_created_at :: "timestamptz option"
  users_raw_user_meta_data_role :: "string option"

record profiles_row =
  profiles_id :: uuid
  profiles_role :: "string option"

record contractors_row =
  contractors_id :: int
  contractors_user_id :: "uuid option"
  contractors_name :: "string option"
  contractors_specialty :: "string option"
  contractors_rating :: "rat option"
  contractors_avatar :: "string option"
  contractors_created_at :: "timestamptz option"

record jobs_row =
  jobs_id :: int
  jobs_unit :: "string option"
  jobs_client_name :: "string option"
  jobs_client_email :: "string option"
  jobs_address :: "string option"
  jobs_service_type :: "string option"
  jobs_service_date :: "string option"
  jobs_lockbox :: "string option"
  jobs_status :: "string option"
  jobs_checklist_notes :: "string option"
  jobs_created_at :: "timestamptz option"
  jobs_contractor_id :: "int option"

record database =
  auth_users :: "users_row list"
  public_profiles :: "profiles_row list"
  public_contractors :: "contractors_row list"
  public_jobs :: "jobs_row list"

subsection \<open>Constraints, inserts and updates\<close>

text \<open>
  A candidate row is the row a statement gives, with defaults and generated keys filled in.
\<close>

text \<open>
  \<^verbatim>\<open>rating NUMERIC(2, 1)\<close>: a value assigned to the column is first rounded to one
  fractional digit, a tie going away from zero; a rounded value with more than one digit
  before the point (10 or more, in absolute value) is the error
  \<^verbatim>\<open>numeric field overflow\<close>. The \<^verbatim>\<open>CHECK\<close> sees the rounded value, and the rounded
  value is what the table stores.
\<close>

definition numeric_round :: "rat \<Rightarrow> rat" where
  "numeric_round x =
     (if 0 \<le> x then of_int \<lfloor>x * 10 + 1 / 2\<rfloor> / 10 else - (of_int \<lfloor>- x * 10 + 1 / 2\<rfloor> / 10))"

definition numeric_2_1 :: "rat \<Rightarrow> error + rat" where
  "numeric_2_1 x =
     (if 10 \<le> \<bar>numeric_round x\<bar> then Inl (numeric_value_out_of_range ''numeric field overflow'')
      else Inr (numeric_round x))"

text \<open>The candidate row with its rating as the column takes it; a NULL stays NULL.\<close>

definition contractors_assign :: "contractors_row \<Rightarrow> error + contractors_row" where
  "contractors_assign r =
     (case contractors_rating r of
        None \<Rightarrow> Inr r
      | Some x \<Rightarrow>
          (case numeric_2_1 x of
             Inl e \<Rightarrow> Inl e
           | Inr y \<Rightarrow> Inr (r\<lparr>contractors_rating := Some y\<rparr>)))"

text \<open>\<^verbatim>\<open>CHECK (role IN ('pm', 'contractor', 'admin'))\<close>\<close>

definition profiles_role_check :: "profiles_row \<Rightarrow> bool option" where
  "profiles_role_check r =
     sql_in (profiles_role r) [Some ''pm'', Some ''contractor'', Some ''admin'']"

text \<open>\<^verbatim>\<open>CHECK (rating >= 0 AND rating <= 5)\<close>\<close>

definition contractors_rating_check :: "contractors_row \<Rightarrow> bool option" where
  "contractors_rating_check r =
     sql_and (sql_le (Some 0) (contractors_rating r)) (sql_le (contractors_rating r) (Some 5))"

text \<open>\<^verbatim>\<open>CHECK (status IN ('Pending', 'In Progress', 'Completed'))\<close>\<close>

definition jobs_status_check :: "jobs_row \<Rightarrow> bool option" where
  "jobs_status_check r =
     sql_in (jobs_status r) [Some ''Pending'', Some ''In Progress'', Some ''Completed'']"

text \<open>
  The constraints of each table on a candidate row, given the other rows of the table:
  \<^verbatim>\<open>NOT NULL\<close>, \<^verbatim>\<open>CHECK\<close>, \<^verbatim>\<open>PRIMARY KEY\<close> and \<^verbatim>\<open>UNIQUE\<close>, \<^verbatim>\<open>REFERENCES\<close>.
  \<open>None\<close> when the row satisfies them all.
\<close>

definition profiles_violation :: "database \<Rightarrow> profiles_row list \<Rightarrow> profiles_row \<Rightarrow> error option" where
  "profiles_violation db others r =
     (if profiles_role r = None then Some (not_null_violation ''role'')
      else if \<not> check_passes (profiles_role_check r) then Some (check_violation ''profiles_role_check'')
      else if profiles_id r \<in> set (map profiles_id others) then Some (unique_violation ''profiles_pkey'')
      else if profiles_id r \<notin> set (map users_id (auth_users db))
        then Some (foreign_key_violation ''profiles_id_fkey'')
      else None)"

definition contractors_violation ::
  "database \<Rightarrow> contractors_row list \<Rightarrow> contractors_row \<Rightarrow> error option" where
  "contractors_violation db others r =
     (if contractors_name r = None then Some (not_null_violation ''name'')
      else if \<not> check_passes (contractors_rating_check r)
        then Some (check_violation ''contractors_rating_check'')
      else if contractors_id r \<in> set (map contractors_id others)
        then Some (unique_violation ''contractors_pkey'')
      else if contractors_user_id r \<noteq> None \<and> contractors_user_id r \<in> set (map contractors_user_id others)
        then Some (unique_violation ''contractors_user_id_key'')
      else if (case contractors_user_id r of None \<Rightarrow> False
               | Some u \<Rightarrow> u \<notin> set (map users_id (auth_users db)))
        then Some (foreign_key_violation ''contractors_user_id_fkey'')
      else None)"

definition jobs_violation :: "database \<Rightarrow> jobs_row list \<Rightarrow> jobs_row \<Rightarrow> error option" where
  "jobs_violation db others r =
     (if jobs_unit r = None then Some (not_null_violation ''unit'')
      else if jobs_client_name r = None then Some (not_null_violation ''client_name'')
      else if jobs_address r = None then Some (not_null_violation ''address'')
      else if jobs_service_type r = None then Some (not_null_violation ''service_type'')
      else if jobs_service_date r = None then Some (not_null_violation ''service_date'')
      else if jobs_status r = None then Some (not_null_violation ''status'')
      else if \<not> check_passes (jobs_status_check r) then Some (check_violation ''jobs_status_check'')
      else if jobs_id r \<in> set (map jobs_id others) then Some (unique_violation ''jobs_pkey'')
      else if (case jobs_contractor_id r of None \<Rightarrow> False
               | Some k \<Rightarrow> k \<notin> set (map contractors_id (public_contractors db)))
        then Some (foreign_key_violation ''jobs_contractor_id_fkey'')
      else None)"

text \<open>\<^verbatim>\<open>INSERT INTO t VALUES (...)\<close>: the row is added, or the statement fails.\<close>

definition insert_profiles :: "database \<Rightarrow> profiles_row \<Rightarrow> error + database" where
  "insert_profiles db r =
     (case profiles_violation db (public_profiles db) r of
        Some e \<Rightarrow> Inl e
      | None \<Rightarrow> Inr (db\<lparr>public_profiles := public_profiles db @ [r]\<rparr>))"

definition insert_contractors :: "database \<Rightarrow> contractors_row \<Rightarrow> error + database" where
  "insert_contractors db r =
     (case contractors_assign r of
        Inl e \<Rightarrow> Inl e
      | Inr r' \<Rightarrow>
          (case contractors_violation db (public_contractors db) r' of
             Some e \<Rightarrow> Inl e
           | None \<Rightarrow> Inr (db\<lparr>public_contractors := public_contractors db @ [r']\<rparr>)))"

definition insert_jobs :: "database \<Rightarrow> jobs_row \<Rightarrow> error + database" where
  "insert_jobs db r =
     (case jobs_violation db (public_jobs db) r of
        Some e \<Rightarrow> Inl e
      | None \<Rightarrow> Inr (db\<lparr>public_jobs := public_jobs db @ [r]\<rparr>))"

text \<open>
  \<^verbatim>\<open>UPDATE t SET ... WHERE id = k\<close>: \<open>set_columns\<close> is the \<^verbatim>\<open>SET\<close> list, a function of
  the old row. Every new row is checked against the rows the statement leaves alone; one
  violation fails the whole statement.
\<close>

definition update_profiles ::
  "database \<Rightarrow> uuid \<Rightarrow> (profiles_row \<Rightarrow> profiles_row) \<Rightarrow> error + database" where
  "update_profiles db k set_columns =
     (let others = filter (\<lambda>r. profiles_id r \<noteq> k) (public_profiles db);
          new_rows = map set_columns (filter (\<lambda>r. profiles_id r = k) (public_profiles db))
      in case first_some (map (profiles_violation db others) new_rows) of
           Some e \<Rightarrow> Inl e
         | None \<Rightarrow> Inr (db\<lparr>public_profiles :=
                      map (\<lambda>r. if profiles_id r = k then set_columns r else r) (public_profiles db)\<rparr>))"

text \<open>
  For contractors each new row goes through the column type first, then the constraints,
  row by row.
\<close>

definition row_outcome ::
  "database \<Rightarrow> contractors_row list \<Rightarrow> error + contractors_row \<Rightarrow> error option" where
  "row_outcome db others a =
     (case a of Inl e \<Rightarrow> Some e | Inr r \<Rightarrow> contractors_violation db others r)"

definition update_contractors ::
  "database \<Rightarrow> int \<Rightarrow> (contractors_row \<Rightarrow> contractors_row) \<Rightarrow> error + database" where
  "update_contractors db k set_columns =
     (let others = filter (\<lambda>r. contractors_id r \<noteq> k) (public_contractors db);
          new_rows = map (\<lambda>r. contractors_assign (set_columns r))
                       (filter (\<lambda>r. contractors_id r = k) (public_contractors db))
      in case first_some (map (row_outcome db others) new_rows) of
           Some e \<Rightarrow> Inl e
         | None \<Rightarrow> Inr (db\<lparr>public_contractors :=
                      map (\<lambda>r. if contractors_id r = k
                                then (case contractors_assign (set_columns r) of
                                        Inl e \<Rightarrow> r | Inr r' \<Rightarrow> r')
                                else r) (public_contractors db)\<rparr>))"

definition update_jobs_table ::
  "database \<Rightarrow> int \<Rightarrow> (jobs_row \<Rightarrow> jobs_row) \<Rightarrow> error + database" where
  "update_jobs_table db k set_columns =
     (let others = filter (\<lambda>r. jobs_id r \<noteq> k) (public_jobs db);
          new_rows = map set_columns (filter (\<lambda>r. jobs_id r = k) (public_jobs db))
      in case first_some (map (jobs_violation db others) new_rows) of
           Some e \<Rightarrow> Inl e
         | None \<Rightarrow> Inr (db\<lparr>public_jobs :=
                      map (\<lambda>r. if jobs_id r = k then set_columns r else r) (public_jobs db)\<rparr>))"

subsection \<open>Deletes and their referential actions\<close>

text \<open>
  \<^verbatim>\<open>DELETE FROM auth.users WHERE id = k\<close>: \<^verbatim>\<open>profiles.id ... ON DELETE CASCADE\<close>
  deletes the profile, \<^verbatim>\<open>contractors.user_id ... ON DELETE SET NULL\<close> clears the link.
\<close>

definition delete_users :: "database \<Rightarrow> uuid \<Rightarrow> database" where
  "delete_users db k =
     db\<lparr>auth_users := filter (\<lambda>u. users_id u \<noteq> k) (auth_users db),
        public_profiles := filter (\<lambda>p. profiles_id p \<noteq> k) (public_profiles db),
        public_contractors :=
          map (\<lambda>c. if contractors_user_id c = Some k then c\<lparr>contractors_user_id := None\<rparr> else c)
            (public_contractors db)\<rparr>"

text \<open>
  \<^verbatim>\<open>DELETE FROM public.contractors WHERE id = k\<close>:
  \<^verbatim>\<open>jobs.contractor_id ... ON DELETE SET NULL\<close> clears the reference.
\<close>

definition delete_contractors :: "database \<Rightarrow> int \<Rightarrow> database" where
  "delete_contractors db k =
     db\<lparr>public_contractors := filter (\<lambda>c. contractors_id c \<noteq> k) (public_contractors db),
        public_jobs :=
          map (\<lambda>j. if jobs_contractor_id j = Some k then j\<lparr>jobs_contractor_id := None\<rparr> else j)
            (public_jobs db)\<rparr>"

subsection \<open>The signup trigger\<close>

text \<open>
  \<^verbatim>\<open>handle_new_user()\<close>, run \<^verbatim>\<open>AFTER INSERT ON auth.users FOR EACH ROW\<close>: it inserts
  the profile of the new user. A failure of the trigger fails the insert that fired it.
\<close>

definition handle_new_user :: "database \<Rightarrow> users_row \<Rightarrow> error + database" where
  "handle_new_user db new =
     insert_profiles db
       \<lparr>profiles_id = users_id new, profiles_role = users_raw_user_meta_data_role new\<rparr>"

definition insert_users :: "database \<Rightarrow> users_row \<Rightarrow> error + database" where
  "insert_users db new =
     (if users_id new \<in> set (map users_id (auth_users db)) then Inl (unique_violation ''users_pkey'')
      else handle_new_user (db\<lparr>auth_users := auth_users db @ [new]\<rparr>) new)"

subsection \<open>Callers and policy expressions\<close>

text \<open>
  A request of the client reaches the tables under one of the platform's two database
  roles; neither owns the tables nor bypasses row level security. \<^verbatim>\<open>auth.uid()\<close> is
  the identity of the request's token, NULL when there is none.
\<close>

datatype db_role = anon | authenticated

record caller =
  caller_db_role :: db_role
  auth_uid :: "uuid option"

text \<open>
  A subquery used as a value: NULL on no row, the value on one row, an error on more.
\<close>

fun scalar_subquery :: "'a option list \<Rightarrow> error + 'a option" where
  "scalar_subquery [] = Inr None"
| "scalar_subquery [v] = Inr v"
| "scalar_subquery (v # w # vs) = Inl cardinality_violation"

text \<open>\<^verbatim>\<open>(SELECT role FROM public.profiles WHERE id = auth.uid())\<close>, on the table as it is\<close>

definition select_caller_role :: "database \<Rightarrow> caller \<Rightarrow> error + string option" where
  "select_caller_role db c =
     scalar_subquery
       (map profiles_role
          (filter (\<lambda>p. is_true (sql_eq (Some (profiles_id p)) (auth_uid c))) (public_profiles db)))"

text \<open>
  A policy expression: the tables its subqueries read, in the order they are written, and
  its value (a condition, or an error) on given tables, for a caller and a row.
\<close>

record 'row expression =
  expr_sublinks :: "relation list"
  expr_value :: "database \<Rightarrow> caller \<Rightarrow> 'row \<Rightarrow> error + bool option"

text \<open>\<^verbatim>\<open>(SELECT role FROM public.profiles WHERE id = auth.uid()) = 'r'\<close>\<close>

definition caller_role_is :: "string \<Rightarrow> 'row expression" where
  "caller_role_is r =
     \<lparr>expr_sublinks = [rel_profiles],
      expr_value = (\<lambda>db c row.
        case select_caller_role db c of
          Inl e \<Rightarrow> Inl e
        | Inr v \<Rightarrow> Inr (sql_eq v (Some r)))\<rparr>"

text \<open>\<^verbatim>\<open>auth.uid() = id\<close>, on profiles\<close>

definition own_profile :: "profiles_row expression" where
  "own_profile =
     \<lparr>expr_sublinks = [],
      expr_value = (\<lambda>db c row. Inr (sql_eq (auth_uid c) (Some (profiles_id row))))\<rparr>"

text \<open>\<^verbatim>\<open>true\<close>\<close>

definition sql_true :: "'row expression" where
  "sql_true = \<lparr>expr_sublinks = [], expr_value = (\<lambda>db c row. Inr (Some True))\<rparr>"

text \<open>
  \<^verbatim>\<open>(SELECT role FROM public.profiles WHERE id = auth.uid()) = 'contractor'
  AND contractor_id IN (SELECT id FROM public.contractors WHERE user_id = auth.uid())\<close>
\<close>

definition assigned_contractor :: "jobs_row expression" where
  "assigned_contractor =
     \<lparr>expr_sublinks = [rel_profiles, rel_contractors],
      expr_value = (\<lambda>db c row.
        case expr_value (caller_role_is ''contractor'') db c row of
          Inl e \<Rightarrow> Inl e
        | Inr b \<Rightarrow>
            Inr (sql_and b
                  (sql_in (jobs_contractor_id row)
                     (map (\<lambda>k. Some (contractors_id k))
                        (filter (\<lambda>k. is_true (sql_eq (contractors_user_id k) (auth_uid c)))
                           (public_contractors db))))))\<rparr>"

subsection \<open>Row level security policies\<close>

datatype command = SELECT | INSERT | UPDATE | DELETE

datatype policy_for = FOR_ALL | FOR command

datatype policy_to = TO_PUBLIC | TO db_role

text \<open>\<^verbatim>\<open>CREATE POLICY name ON t [FOR ...] [TO ...] [USING (...)] [WITH CHECK (...)]\<close>\<close>

record 'row policy =
  policy_name :: string
  policy_for :: policy_for
  policy_to :: policy_to
  policy_using :: "'row expression option"
  policy_with_check :: "'row expression option"

definition profiles_policies :: "profiles_row policy list" where
  "profiles_policies =
     [\<lparr>policy_name = ''Allow admin full access on profiles'', policy_for = FOR_ALL,
        policy_to = TO_PUBLIC, policy_using = Some (caller_role_is ''admin''),
        policy_with_check = None\<rparr>,
      \<lparr>policy_name = ''Allow users to view their own profile'', policy_for = FOR SELECT,
        policy_to = TO_PUBLIC, policy_using = Some own_profile, policy_with_check = None\<rparr>]"

definition contractors_policies :: "contractors_row policy list" where
  "contractors_policies =
     [\<lparr>policy_name = ''Allow admin full access on contractors'', policy_for = FOR_ALL,
        policy_to = TO_PUBLIC, policy_using = Some (caller_role_is ''admin''),
        policy_with_check = None\<rparr>,
      \<lparr>policy_name = ''Allow authenticated users to read contractors'', policy_for = FOR SELECT,
        policy_to = TO authenticated, policy_using = Some sql_true, policy_with_check = None\<rparr>,
      \<lparr>policy_name = ''Allow PMs to create/update contractors'', policy_for = FOR_ALL,
        policy_to = TO_PUBLIC, policy_using = Some (caller_role_is ''pm''),
        policy_with_check = None\<rparr>]"

definition jobs_policies :: "jobs_row policy list" where
  "jobs_policies =
     [\<lparr>policy_name = ''Allow admin full access on jobs'', policy_for = FOR_ALL,
        policy_to = TO_PUBLIC, policy_using = Some (caller_role_is ''admin''),
        policy_with_check = None\<rparr>,
      \<lparr>policy_name = ''Allow PMs to read all jobs'', policy_for = FOR SELECT,
        policy_to = TO_PUBLIC, policy_using = Some (caller_role_is ''pm''),
        policy_with_check = None\<rparr>,
      \<lparr>policy_name = ''Allow assigned contractors to read their jobs'', policy_for = FOR SELECT,
        policy_to = TO_PUBLIC, policy_using = Some assigned_contractor, policy_with_check = None\<rparr>,
      \<lparr>policy_name = ''Allow PMs to create jobs'', policy_for = FOR INSERT,
        policy_to = TO_PUBLIC, policy_using = None,
        policy_with_check = Some (caller_role_is ''pm'')\<rparr>,
      \<lparr>policy_name = ''Allow PMs to update jobs'', policy_for = FOR UPDATE,
        policy_to = TO_PUBLIC, policy_using = Some (caller_role_is ''pm''),
        policy_with_check = None\<rparr>,
      \<lparr>policy_name = ''Allow assigned contractors to update their job status'',
        policy_for = FOR UPDATE, policy_to = TO_PUBLIC, policy_using = Some assigned_contractor,
        policy_with_check = None\<rparr>]"

subsection \<open>What the policy expressions grant\<close>

text \<open>
  The policies of a table are permissive: a row passes when some policy that applies to
  the command and to the caller's database role has an expression that is true for it;
  with no such policy nothing passes. Existing rows are filtered by \<^verbatim>\<open>USING\<close>; new
  rows are checked by \<^verbatim>\<open>WITH CHECK\<close>, which is the \<^verbatim>\<open>USING\<close> expression when the
  policy gives none.
\<close>

definition applies :: "'row policy \<Rightarrow> caller \<Rightarrow> command \<Rightarrow> bool" where
  "applies p c cmd =
     ((policy_for p = FOR_ALL \<or> policy_for p = FOR cmd) \<and>
      (policy_to p = TO_PUBLIC \<or> policy_to p = TO (caller_db_role c)))"

definition with_check_of :: "'row policy \<Rightarrow> 'row expression option" where
  "with_check_of p = (case policy_with_check p of None \<Rightarrow> policy_using p | Some w \<Rightarrow> Some w)"

definition holds :: "'row expression option \<Rightarrow> database \<Rightarrow> caller \<Rightarrow> 'row \<Rightarrow> bool" where
  "holds e db c row = (case e of None \<Rightarrow> False | Some f \<Rightarrow> expr_value f db c row = Inr (Some True))"

definition using_permits ::
  "'row policy list \<Rightarrow> database \<Rightarrow> caller \<Rightarrow> command \<Rightarrow> 'row \<Rightarrow> bool" where
  "using_permits ps db c cmd row =
     list_ex (\<lambda>p. applies p c cmd \<and> holds (policy_using p) db c row) ps"

definition with_check_permits ::
  "'row policy list \<Rightarrow> database \<Rightarrow> caller \<Rightarrow> command \<Rightarrow> 'row \<Rightarrow> bool" where
  "with_check_permits ps db c cmd row =
     list_ex (\<lambda>p. applies p c cmd \<and> holds (with_check_of p) db c row) ps"

text \<open>
  The four operations on a table and what the policies ask of each: a read, a deletion
  and the old row of an update pass \<^verbatim>\<open>USING\<close>, an inserted row and the new row of an
  update pass \<^verbatim>\<open>WITH CHECK\<close>.
\<close>

datatype 'row operation = read_row 'row | create_row 'row | update_row 'row 'row | delete_row 'row

fun operation_command :: "'row operation \<Rightarrow> command" where
  "operation_command (read_row r) = SELECT"
| "operation_command (create_row r) = INSERT"
| "operation_command (update_row old new) = UPDATE"
| "operation_command (delete_row r) = DELETE"

fun permitted :: "'row policy list \<Rightarrow> database \<Rightarrow> caller \<Rightarrow> 'row operation \<Rightarrow> bool" where
  "permitted ps db c (read_row r) = using_permits ps db c SELECT r"
| "permitted ps db c (create_row r) = with_check_permits ps db c INSERT r"
| "permitted ps db c (update_row old new) =
     (using_permits ps db c UPDATE old \<and> with_check_permits ps db c UPDATE new)"
| "permitted ps db c (delete_row r) = using_permits ps db c DELETE r"

subsection \<open>How a statement under row level security is rewritten\<close>

text \<open>
  Before a statement of a caller runs, PostgreSQL adds to each table it names the
  expressions of the policies that apply: the \<^verbatim>\<open>USING\<close> expressions for a
  \<^verbatim>\<open>SELECT\<close>, \<^verbatim>\<open>UPDATE\<close> or \<^verbatim>\<open>DELETE\<close>, the \<^verbatim>\<open>WITH CHECK\<close> expressions for
  an \<^verbatim>\<open>INSERT\<close> or \<^verbatim>\<open>UPDATE\<close>. (An \<^verbatim>\<open>UPDATE\<close> or \<^verbatim>\<open>DELETE\<close> that
  also reads the rows it changes gets the \<^verbatim>\<open>SELECT\<close> expressions as well; here they
  would add subqueries on the same table and no other.)
\<close>

definition added_expressions :: "'row policy list \<Rightarrow> caller \<Rightarrow> command \<Rightarrow> 'row expression list" where
  "added_expressions ps c cmd =
     (if cmd = INSERT then [] else List.map_filter policy_using (filter (\<lambda>p. applies p c cmd) ps)) @
     (if cmd = INSERT \<or> cmd = UPDATE
      then List.map_filter with_check_of (filter (\<lambda>p. applies p c cmd) ps) else [])"

text \<open>The tables read by the subqueries of the expressions added to a table.\<close>

definition relation_sublinks :: "relation \<Rightarrow> caller \<Rightarrow> command \<Rightarrow> relation list" where
  "relation_sublinks rel c cmd =
     (case rel of
        rel_profiles \<Rightarrow> concat (map expr_sublinks (added_expressions profiles_policies c cmd))
      | rel_contractors \<Rightarrow> concat (map expr_sublinks (added_expressions contractors_policies c cmd))
      | rel_jobs \<Rightarrow> concat (map expr_sublinks (added_expressions jobs_policies c cmd)))"

text \<open>
  A subquery of an added expression runs with the caller's rights, so the tables it reads
  get their own \<^verbatim>\<open>SELECT\<close> policies added in turn (the rewriter's \<^verbatim>\<open>fireRIRrules\<close>).
  \<open>activeRIRs\<close> lists the tables whose expressions are being processed: meeting one of
  them again, with expressions that have subqueries, is the error
  \<^verbatim>\<open>infinite recursion detected in policy for relation\<close>. \<open>None\<close> is a statement
  the rewriter accepts.
\<close>

function fireRIRrules :: "caller \<Rightarrow> relation list \<Rightarrow> command \<Rightarrow> relation \<Rightarrow> error option" where
  "fireRIRrules c activeRIRs cmd rel =
     (if relation_sublinks rel c cmd = [] then None
      else if rel \<in> set activeRIRs then Some (infinite_recursion_in_policy rel)
      else first_some (map (\<lambda>sub. fireRIRrules c (activeRIRs @ [rel]) SELECT sub)
                         (relation_sublinks rel c cmd)))"
  by pat_completeness auto

lemma relation_UNIV: "(UNIV :: relation set) = {rel_profiles, rel_contractors, rel_jobs}"
  using relation.exhaust by auto

lemma fewer_inactive_relations:
  assumes "(rel :: relation) \<notin> set activeRIRs"
  shows "card (UNIV - set (activeRIRs @ [rel])) < card (UNIV - set activeRIRs)"
proof -
  have "finite (UNIV - set activeRIRs)"
    by (simp add: relation_UNIV)
  moreover have "UNIV - set (activeRIRs @ [rel]) \<subset> UNIV - set activeRIRs"
    using assms by auto
  ultimately show ?thesis by (rule psubset_card_mono)
qed

termination fireRIRrules
proof (relation "measure (\<lambda>(c, activeRIRs, cmd, rel). card (UNIV - set activeRIRs))", goal_cases)
  case 1
  show ?case by simp
next
  case (2 c activeRIRs cmd rel sub)
  then show ?case
    using fewer_inactive_relations[of rel activeRIRs] by simp
qed

declare fireRIRrules.simps [simp del]

text \<open>
  An operation of a caller on a row of a table: the failure of the rewriter, or else
  whether the policy expressions let the row pass. In a statement the rewriter accepts,
  a subquery of an expression sees the rows that the policies of its table let the caller
  read, where \<open>permitted\<close> reads the whole tables. No statement on the tables of this
  script gets that far.
\<close>

definition row_security ::
  "'row policy list \<Rightarrow> relation \<Rightarrow> database \<Rightarrow> caller \<Rightarrow> 'row operation \<Rightarrow> error + bool" where
  "row_security ps rel db c op =
     (case fireRIRrules c [] (operation_command op) rel of
        Some e \<Rightarrow> Inl e
      | None \<Rightarrow> Inr (permitted ps db c op))"

definition profiles_access :: "database \<Rightarrow> caller \<Rightarrow> profiles_row operation \<Rightarrow> error + bool" where
  "profiles_access = row_security profiles_policies rel_profiles"

definition contractors_access ::
  "database \<Rightarrow> caller \<Rightarrow> contractors_row operation \<Rightarrow> error + bool" where
  "contractors_access = row_security contractors_policies rel_contractors"

definition jobs_access :: "database \<Rightarrow> caller \<Rightarrow> jobs_row operation \<Rightarrow> error + bool" where
  "jobs_access = row_security jobs_policies rel_jobs"

subsection \<open>The admin-only procedures\<close>

text \<open>
  \<^verbatim>\<open>EXISTS (SELECT 1 FROM public.profiles p WHERE p.id = auth.uid() AND p.role = 'admin')\<close>
\<close>

definition caller_is_admin :: "database \<Rightarrow> caller \<Rightarrow> bool" where
  "caller_is_admin db c =
     list_ex (\<lambda>p. is_true (sql_and (sql_eq (Some (profiles_id p)) (auth_uid c))
                                   (sql_eq (profiles_role p) (Some ''admin''))))
       (public_profiles db)"

text \<open>
  Both procedures are \<^verbatim>\<open>SECURITY DEFINER\<close>: their statements are not filtered by the
  policies. A raised exception ends the procedure and undoes what it did.
\<close>

type_synonym all_users_row = "uuid \<times> string option \<times> string option \<times> timestamptz option"

definition get_all_users :: "database \<Rightarrow> caller \<Rightarrow> error + all_users_row list" where
  "get_all_users db c =
     (if \<not> caller_is_admin db c then Inl (raise_exception ''Only admins can view all users'')
      else Inr (concat (map (\<lambda>u.
             map (\<lambda>p. (users_id u, users_email u, profiles_role p, users_created_at u))
               (filter (\<lambda>p. users_id u = profiles_id p) (public_profiles db)))
             (auth_users db))))"

text \<open>The result and the database after the call.\<close>

definition delete_user :: "database \<Rightarrow> caller \<Rightarrow> uuid \<Rightarrow> (error + unit) \<times> database" where
  "delete_user db c user_id =
     (if \<not> caller_is_admin db c then (Inl (raise_exception ''Only admins can delete users''), db)
      else (Inr (), delete_users db user_id))"

section \<open>Example data\<close>

text \<open>A job row of unit 4B, with the given key, status and contractor.\<close>

definition example_job :: "int \<Rightarrow> string option \<Rightarrow> int option \<Rightarrow> jobs_row" where
  "example_job k status cid =
     \<lparr>jobs_id = k, jobs_unit = Some ''4B'', jobs_client_name = Some ''Dana Reyes'',
      jobs_client_email = None, jobs_address = Some ''12 Elm Street'',
      jobs_service_type = Some ''Deep Cleaning'', jobs_service_date = Some ''2024-05-01'',
      jobs_lockbox = None, jobs_status = status, jobs_checklist_notes = None,
      jobs_created_at = Some 7, jobs_contractor_id = cid\<rparr>"

text \<open>
  A small database: an admin, a property manager, two contractors with a login and one
  without; a job for each contractor and one that is not assigned.
\<close>

definition example_db :: database where
  "example_db =
     \<lparr>auth_users =
        [\<lparr>users_id = ''uid-admin'', users_email = Some ''admin@flashfix.test'',
          users_created_at = Some 1, users_raw_user_meta_data_role = Some ''admin''\<rparr>,
         \<lparr>users_id = ''uid-pm'', users_email = Some ''pm@flashfix.test'',
          users_created_at = Some 2, users_raw_user_meta_data_role = Some ''pm''\<rparr>,
         \<lparr>users_id = ''uid-crew'', users_email = Some ''crew@flashfix.test'',
          users_created_at = Some 3, users_raw_user_meta_data_role = Some ''contractor''\<rparr>,
         \<lparr>users_id = ''uid-shine'', users_email = Some ''shine@flashfix.test'',
          users_created_at = Some 4, users_raw_user_meta_data_role = Some ''contractor''\<rparr>],
      public_profiles =
        [\<lparr>profiles_id = ''uid-admin'', profiles_role = Some ''admin''\<rparr>,
         \<lparr>profiles_id = ''uid-pm'', profiles_role = Some ''pm''\<rparr>,
         \<lparr>profiles_id = ''uid-crew'', profiles_role = Some ''contractor''\<rparr>,
         \<lparr>profiles_id = ''uid-shine'', profiles_role = Some ''contractor''\<rparr>],
      public_contractors =
        [\<lparr>contractors_id = 1, contractors_user_id = Some ''uid-crew'',
          contractors_name = Some ''Cleaning Crew Co.'', contractors_specialty = Some ''Deep Cleaning'',
          contractors_rating = Some (49 / 10), contractors_avatar = Some ''C'',
          contractors_created_at = Some 5\<rparr>,
         \<lparr>contractors_id = 2, contractors_user_id = Some ''uid-shine'',
          contractors_name = Some ''Sparkle & Shine'', contractors_specialty = Some ''Standard Cleaning'',
          contractors_rating = Some (47 / 10), contractors_avatar = Some ''S'',
          contractors_created_at = Some 5\<rparr>,
         \<lparr>contractors_id = 3, contractors_user_id = None,
          contractors_name = Some ''Handy Help'', contractors_specialty = None,
          contractors_rating = None, contractors_avatar = None,
          contractors_created_at = Some 6\<rparr>],
      public_jobs =
        [example_job 1 (Some ''In Progress'') (Some 1),
         example_job 2 (Some ''In Progress'') (Some 2),
         example_job 3 (Some ''In Progress'') (Some 3),
         example_job 4 (Some ''Pending'') None]\<rparr>"


text \<open>A contractor row without a login, with the given key and rating.\<close>

definition example_contractor :: "int \<Rightarrow> rat option \<Rightarrow> contractors_row" where
  "example_contractor k rating =
     \<lparr>contractors_id = k, contractors_user_id = None, contractors_name = Some ''Quick Fix'',
      contractors_specialty = Some ''General Repair'', contractors_rating = rating,
      contractors_avatar = Some ''Q'', contractors_created_at = Some 8\<rparr>"

definition example_caller :: "uuid \<Rightarrow> caller" where
  "example_caller u = \<lparr>caller_db_role = authenticated, auth_uid = Some u\<rparr>"

text \<open>A client state: two cached jobs and two cached contractors.\<close>

definition example_Job :: "int \<Rightarrow> JobStatus \<Rightarrow> Job" where
  "example_Job k status =
     \<lparr>job_id = k, job_unit = ''4B'', job_client_name = ''Dana Reyes'', job_client_email = [],
      job_address = ''12 Elm Street'', job_service_type = ''Deep Cleaning'',
      job_service_date = ''2024-05-01'', job_lockbox = [], job_status = status,
      job_checklist_notes = None, job_created_at = None, job_contractor_id = Null,
      job_contractor_name = Undefined\<rparr>"

definition example_state :: app_state where
  "example_state =
     \<lparr>session = Some \<lparr>session_user_id = ''uid-pm'', session_user_email = Some ''pm@flashfix.test''\<rparr>,
      userRole = Some role_pm, loading = False, activeTab = tab_history, isSidebarOpen = True,
      jobs = [example_Job 10 Completed, example_Job 11 Pending],
      contractors =
        [\<lparr>ctr_id = 1, ctr_name = ''Cleaning Crew Co.'', ctr_specialty = ''Deep Cleaning'',
          ctr_rating = 49 / 10, ctr_avatar = ''C''\<rparr>,
         \<lparr>ctr_id = 2, ctr_name = ''Sparkle & Shine'', ctr_specialty = ''Standard Cleaning'',
          ctr_rating = 47 / 10, ctr_avatar = ''S''\<rparr>]\<rparr>"

text \<open>A response that carries an error and no data.\<close>

definition failed_response :: "'d response" where
  "failed_response = \<lparr>response_data = None, response_error = Some ''Failed to fetch''\<rparr>"

section \<open>Properties of the application state controller\<close>

lemma find_None_iff_ids:
  "(find (\<lambda>c. ctr_id c = k) cs = None) = (k \<notin> ctr_id ` set cs)"
  by (induction cs) auto

lemma find_Some_member:
  "find P xs = Some x \<Longrightarrow> x \<in> set xs \<and> P x"
  by (induction xs) (auto split: if_splits)

lemma find_present:
  assumes "k \<in> ctr_id ` set cs"
  shows "\<exists>c. find (\<lambda>c. ctr_id c = k) cs = Some c \<and> c \<in> set cs \<and> ctr_id c = k"
proof -
  from assms have "find (\<lambda>c. ctr_id c = k) cs \<noteq> None"
    by (simp add: find_None_iff_ids)
  then obtain c where c: "find (\<lambda>c. ctr_id c = k) cs = Some c" by auto
  with find_Some_member[OF c] show ?thesis by auto
qed

text \<open>
  The optimistic update touches the jobs with the given id, whatever their status, and
  leaves every other job and every other cell of the state as it was.
\<close>

lemma handleAssignJob_found:
  assumes "find (\<lambda>c. ctr_id c = contractorId) (contractors st) = Some c"
  shows "handleAssignJob st jobId contractorId =
     (st\<lparr>jobs := map (\<lambda>job. if job_id job = jobId
                              then job\<lparr>job_contractor_id := Val contractorId,
                                       job_contractor_name := Val (ctr_name c),
                                       job_status := In_Progress\<rparr>
                              else job) (jobs st)\<rparr>,
      [sent (update_jobs \<lparr>patch_contractor_id = Some contractorId,
                          patch_status = Some In_Progress\<rparr> jobId)])"
  using assms by (simp add: handleAssignJob_def)

text \<open>
  Claim C5. When the job at a position of the cached list is pending and the contractor id
  is in the cached contractors, the state that \<open>handleAssignJob\<close> leaves at its
  \<^verbatim>\<open>await\<close>, with the update request sent and not yet answered, has at that position
  the same job with status In Progress, that contractor id and the name of the cached
  contractor the lookup found.
\<close>

theorem handleAssignJob_optimistic:
  assumes "i < length (jobs st)"
    and "job_id (jobs st ! i) = jobId"
    and "job_status (jobs st ! i) = Pending"
    and "contractorId \<in> ctr_id ` set (contractors st)"
  shows "\<exists>c. find (\<lambda>c. ctr_id c = contractorId) (contractors st) = Some c \<and>
             c \<in> set (contractors st) \<and> ctr_id c = contractorId \<and>
             length (jobs (fst (handleAssignJob st jobId contractorId))) = length (jobs st) \<and>
             jobs (fst (handleAssignJob st jobId contractorId)) ! i =
               (jobs st ! i)\<lparr>job_contractor_id := Val contractorId,
                              job_contractor_name := Val (ctr_name c),
                              job_status := In_Progress\<rparr> \<and>
             snd (handleAssignJob st jobId contractorId) =
               [sent (update_jobs \<lparr>patch_contractor_id = Some contractorId,
                                   patch_status = Some In_Progress\<rparr> jobId)]"
proof -
  from find_present[OF assms(4)] obtain c where
    c: "find (\<lambda>c. ctr_id c = contractorId) (contractors st) = Some c"
       "c \<in> set (contractors st)" "ctr_id c = contractorId" by blast
  from assms(1,2) c(2,3) show ?thesis
    by (simp add: handleAssignJob_found[OF c(1)] c(1))
qed

theorem handleAssignJob_optimistic_witness:
  "(1::nat) < length (jobs example_state) \<and>
   job_id (jobs example_state ! 1) = 11 \<and>
   job_status (jobs example_state ! 1) = Pending \<and>
   2 \<in> ctr_id ` set (contractors example_state) \<and>
   jobs (fst (handleAssignJob example_state 11 2)) ! 1 =
     (example_Job 11 Pending)\<lparr>job_contractor_id := Val 2,
        job_contractor_name := Val ''Sparkle & Shine'', job_status := In_Progress\<rparr> \<and>
   jobs (fst (handleAssignJob example_state 11 2)) ! 0 = example_Job 10 Completed"
  using handleAssignJob_optimistic[of 1 example_state 11 2]
  by (simp add: example_state_def example_Job_def handleAssignJob_def)

text \<open>
  Claim C10. With a contractor id that is not in the cached contractors, \<open>handleAssignJob\<close>
  returns at once: the whole state, the job list in it, is what it was, and nothing is
  sent or logged, whatever the job id.
\<close>

theorem handleAssignJob_unknown_contractor_noop:
  assumes "contractorId \<notin> ctr_id ` set (contractors st)"
  shows "handleAssignJob st jobId contractorId = (st, [])"
proof -
  from assms have "find (\<lambda>c. ctr_id c = contractorId) (contractors st) = None"
    by (simp add: find_None_iff_ids)
  then show ?thesis by (simp add: handleAssignJob_def)
qed

theorem handleAssignJob_unknown_contractor_noop_witness:
  "3 \<notin> ctr_id ` set (contractors example_state) \<and>
   handleAssignJob example_state 11 3 = (example_state, [])"
  using handleAssignJob_unknown_contractor_noop[of 3 example_state 11]
  by (simp add: example_state_def)

text \<open>
  Claim C9. When the response to the jobs query carries an error, \<open>fetchJobs\<close> sets the
  cached jobs to the empty list, whatever they were, and logs; \<open>fetchContractors\<close> does
  the same to the cached contractors. Nothing else in the state changes.
\<close>

theorem failed_fetch_empties_cache:
  "(response_error r \<noteq> None \<longrightarrow>
      fetchJobs_resume st r = (st\<lparr>jobs := []\<rparr>, [console_error ''Error fetching jobs:''])) \<and>
   (response_error r' \<noteq> None \<longrightarrow>
      fetchContractors_resume st r' =
        (st\<lparr>contractors := []\<rparr>, [console_error ''Error fetching contractors:'']))"
  by (simp add: fetchJobs_resume_def fetchContractors_resume_def)

theorem failed_fetch_empties_cache_witness:
  "response_error (failed_response :: fetched_job list response) \<noteq> None \<and>
   response_error (failed_response :: Contractor list response) \<noteq> None \<and>
   jobs example_state \<noteq> [] \<and>
   jobs (fst (fetchJobs_resume example_state failed_response)) = [] \<and>
   contractors example_state \<noteq> [] \<and>
   contractors (fst (fetchContractors_resume example_state failed_response)) = []"
  using failed_fetch_empties_cache[of failed_response example_state failed_response]
  by (simp add: failed_response_def example_state_def)

text \<open>
  Claim C6. When the response to the update request of either mutation carries an error,
  the handler logs and sends one request, the jobs query of \<open>fetchJobs\<close>: not the
  update again and nothing after it. The state is untouched until the answer to that
  query arrives, and handling that answer sends nothing, whatever it is. When the answer
  carries rows and no error, the cached jobs become the processed rows, whatever the
  optimistic state held.
\<close>

theorem failed_mutation_refetches_once:
  assumes "response_error r \<noteq> None"
  shows "handleAssignJob_resume optimistic r =
           (optimistic, [console_error ''Failed to assign job:'', sent fetchJobs]) \<and>
         handleUpdateJobStatus_resume optimistic r =
           (optimistic, [console_error ''Failed to update job status:'', sent fetchJobs]) \<and>
         fetchJobs = select_jobs \<and>
         (\<forall>answer q. sent q \<notin> set (snd (fetchJobs_resume optimistic answer))) \<and>
         (response_error answer = None \<and> response_data answer = Some rows \<longrightarrow>
            fetchJobs_resume optimistic answer = (optimistic\<lparr>jobs := map processJob rows\<rparr>, []))"
  using assms
  by (auto simp: handleAssignJob_resume_def handleUpdateJobStatus_resume_def fetchJobs_def
      fetchJobs_resume_def split: option.splits)

theorem failed_mutation_refetches_once_witness:
  "response_error (failed_response :: unit response) \<noteq> None \<and>
   snd (handleAssignJob_resume (fst (handleAssignJob example_state 11 2)) failed_response) =
     [console_error ''Failed to assign job:'', sent select_jobs] \<and>
   snd (handleUpdateJobStatus_resume (fst (handleUpdateJobStatus example_state 11 Completed))
          failed_response) =
     [console_error ''Failed to update job status:'', sent select_jobs] \<and>
   jobs (fst (fetchJobs_resume (fst (handleAssignJob example_state 11 2))
     \<lparr>response_data =
        Some [\<lparr>fetched_columns = example_Job 11 Pending, fetched_contractors = joined_null\<rparr>],
      response_error = None\<rparr>)) = [example_Job 11 Pending]"
  using failed_mutation_refetches_once[of failed_response
      "fst (handleAssignJob example_state 11 2)"
      "\<lparr>response_data =
          Some [\<lparr>fetched_columns = example_Job 11 Pending, fetched_contractors = joined_null\<rparr>],
        response_error = None\<rparr>"
      "[\<lparr>fetched_columns = example_Job 11 Pending, fetched_contractors = joined_null\<rparr>]"]
    failed_mutation_refetches_once[of failed_response
      "fst (handleUpdateJobStatus example_state 11 Completed)"]
  by (simp add: failed_response_def processJob_def)

section \<open>Properties of the schema and policy layer\<close>

subsection \<open>Three-valued logic\<close>

lemma is_true_sql_eq: "is_true (sql_eq a b) = (\<exists>x. a = Some x \<and> b = Some x)"
  by (auto simp: is_true_def sql_eq_def split: option.splits)

lemma sql_eq_true: "(sql_eq a b = Some True) = (\<exists>x. a = Some x \<and> b = Some x)"
  by (auto simp: sql_eq_def split: option.splits)

lemma sql_in_true: "(sql_in x vs = Some True) = (\<exists>v. x = Some v \<and> Some v \<in> set vs)"
  by (auto simp: sql_in_def split: option.splits)

lemma sql_and_true: "(sql_and a b = Some True) = (a = Some True \<and> b = Some True)"
  by (auto simp: sql_and_def)

lemma scalar_subquery_Some: "(scalar_subquery vs = Inr (Some r)) = (vs = [Some r])"
  by (cases vs rule: scalar_subquery.cases) auto

lemma first_some_map:
  assumes "x \<in> set rows" and "v x \<noteq> None"
  shows "first_some (map v rows) \<noteq> None"
  using assms
proof (induction rows)
  case Nil
  then show ?case by simp
next
  case (Cons a rows)
  then show ?case by (cases "v a") auto
qed

subsection \<open>Constraints\<close>

lemma profiles_violation_role:
  assumes "profiles_role r \<notin> {Some ''pm'', Some ''contractor'', Some ''admin''}"
  shows "profiles_violation db others r \<noteq> None"
  using assms
  by (cases "profiles_role r")
     (auto simp: profiles_violation_def profiles_role_check_def check_passes_def sql_in_def)

lemma contractors_violation_rating:
  assumes "contractors_rating r = Some x" and "x < 0 \<or> 5 < x"
  shows "contractors_violation db others r \<noteq> None"
  using assms
  by (auto simp: contractors_violation_def contractors_rating_check_def check_passes_def
      sql_and_def sql_le_def)

lemma jobs_violation_status:
  assumes "jobs_status r \<notin> {Some ''Pending'', Some ''In Progress'', Some ''Completed''}"
  shows "jobs_violation db others r \<noteq> None"
  using assms
  by (cases "jobs_status r")
     (auto simp: jobs_violation_def jobs_status_check_def check_passes_def sql_in_def)

text \<open>A rating that is NULL is no rating: the \<^verbatim>\<open>CHECK\<close> lets it pass.\<close>

lemma contractors_rating_check_null:
  "contractors_rating r = None \<Longrightarrow> check_passes (contractors_rating_check r)"
  by (simp add: contractors_rating_check_def check_passes_def sql_and_def sql_le_def)

lemma insert_profiles_rejects:
  "profiles_violation db (public_profiles db) r \<noteq> None \<Longrightarrow> isl (insert_profiles db r)"
  by (auto simp: insert_profiles_def)

text \<open>Rounding to one fractional digit, on decimal literals and in general.\<close>

lemma floor_numeral_divide_rat:
  "\<lfloor>(numeral a :: rat) / numeral b\<rfloor> = numeral a div numeral b"
  using floor_divide_of_int_eq[of "numeral a" "numeral b", where ?'a = rat] by simp

lemma floor_one_divide_rat: "\<lfloor>(1 :: rat) / numeral b\<rfloor> = 1 div numeral b"
  using floor_divide_of_int_eq[of 1 "numeral b", where ?'a = rat] by simp

lemma numeric_round_negative: "(numeric_round x < 0) = (x \<le> - (5 / 100))"
proof (cases "0 \<le> x")
  case True
  then have "0 \<le> \<lfloor>x * 10 + 1 / 2\<rfloor>" by simp
  with True show ?thesis by (simp add: numeric_round_def)
next
  case False
  have "(numeric_round x < 0) = (1 \<le> \<lfloor>- x * 10 + 1 / 2\<rfloor>)"
    using False by (simp add: numeric_round_def; linarith)
  also have "\<dots> = (x \<le> - (5 / 100))"
    by (simp add: le_floor_iff; linarith)
  finally show ?thesis .
qed

lemma numeric_round_above_5: "(5 < numeric_round x) = (505 / 100 \<le> x)"
proof (cases "0 \<le> x")
  case True
  have "(5 < numeric_round x) = (51 \<le> \<lfloor>x * 10 + 1 / 2\<rfloor>)"
    using True by (simp add: numeric_round_def; linarith)
  also have "\<dots> = (505 / 100 \<le> x)"
    by (simp add: le_floor_iff; linarith)
  finally show ?thesis .
next
  case False
  then have "0 \<le> \<lfloor>- x * 10 + 1 / 2\<rfloor>" by simp
  then have "(0 :: rat) \<le> of_int \<lfloor>- x * 10 + 1 / 2\<rfloor> / 10" by simp
  with False have "numeric_round x \<le> 0" by (simp only: numeric_round_def if_False; linarith)
  with False show ?thesis by linarith
qed

lemma contractors_assign_rating:
  assumes "contractors_rating r = Some x" and "contractors_assign r = Inr r'"
  shows "contractors_rating r' = Some (numeric_round x)"
  using assms
  by (auto simp: contractors_assign_def numeric_2_1_def split: if_splits)

lemma row_outcome_rating:
  assumes "contractors_rating r = Some x" and "numeric_round x < 0 \<or> 5 < numeric_round x"
  shows "row_outcome db others (contractors_assign r) \<noteq> None"
proof (cases "contractors_assign r")
  case (Inl e)
  then show ?thesis by (simp add: row_outcome_def)
next
  case (Inr r')
  with assms(1) have "contractors_rating r' = Some (numeric_round x)"
    by (rule contractors_assign_rating)
  then have "contractors_violation db others r' \<noteq> None"
    using assms(2) by (rule contractors_violation_rating)
  with Inr show ?thesis by (simp add: row_outcome_def)
qed

lemma insert_contractors_outcome:
  "isl (insert_contractors db r) =
     (row_outcome db (public_contractors db) (contractors_assign r) \<noteq> None)"
  by (auto simp: insert_contractors_def row_outcome_def split: sum.splits option.splits)

lemma insert_jobs_rejects:
  "jobs_violation db (public_jobs db) r \<noteq> None \<Longrightarrow> isl (insert_jobs db r)"
  by (auto simp: insert_jobs_def)

lemma update_profiles_rejects:
  assumes "old \<in> set (public_profiles db)"
    and "\<And>others. profiles_violation db others (set_columns old) \<noteq> None"
  shows "isl (update_profiles db (profiles_id old) set_columns)"
proof -
  have "first_some (map
          (profiles_violation db
             (filter (\<lambda>r. profiles_id r \<noteq> profiles_id old) (public_profiles db)))
          (map set_columns
             (filter (\<lambda>r. profiles_id r = profiles_id old) (public_profiles db)))) \<noteq> None"
    by (rule first_some_map[where x = "set_columns old"]) (use assms in auto)
  then show ?thesis by (auto simp: update_profiles_def Let_def)
qed

lemma update_contractors_rejects:
  assumes "old \<in> set (public_contractors db)"
    and "\<And>others. row_outcome db others (contractors_assign (set_columns old)) \<noteq> None"
  shows "isl (update_contractors db (contractors_id old) set_columns)"
proof -
  have "first_some (map
          (row_outcome db
             (filter (\<lambda>r. contractors_id r \<noteq> contractors_id old) (public_contractors db)))
          (map (\<lambda>r. contractors_assign (set_columns r))
             (filter (\<lambda>r. contractors_id r = contractors_id old) (public_contractors db)))) \<noteq> None"
    by (rule first_some_map[where x = "contractors_assign (set_columns old)"]) (use assms in auto)
  then show ?thesis by (auto simp: update_contractors_def Let_def)
qed

lemma update_jobs_table_rejects:
  assumes "old \<in> set (public_jobs db)"
    and "\<And>others. jobs_violation db others (set_columns old) \<noteq> None"
  shows "isl (update_jobs_table db (jobs_id old) set_columns)"
proof -
  have "first_some (map
          (jobs_violation db (filter (\<lambda>r. jobs_id r \<noteq> jobs_id old) (public_jobs db)))
          (map set_columns (filter (\<lambda>r. jobs_id r = jobs_id old) (public_jobs db)))) \<noteq> None"
    by (rule first_some_map[where x = "set_columns old"]) (use assms in auto)
  then show ?thesis by (auto simp: update_jobs_table_def Let_def)
qed

text \<open>
  Claim C7, as stated, at an input where it fails. A contractor row with rating 5.04, a
  rating outside [0,5], is not rejected: the column rounds it to 5.0, the \<^verbatim>\<open>CHECK\<close>
  passes and the row is stored with rating 5. Likewise -0.04 is stored as 0.
\<close>

theorem rating_504_is_stored_as_5:
  "5 < (504 / 100 :: rat) \<and>
   insert_contractors example_db (example_contractor 4 (Some (504 / 100))) =
     Inr (example_db\<lparr>public_contractors :=
            public_contractors example_db @ [example_contractor 4 (Some 5)]\<rparr>) \<and>
   (- 4 / 100 :: rat) < 0 \<and>
   insert_contractors example_db (example_contractor 4 (Some (- 4 / 100))) =
     Inr (example_db\<lparr>public_contractors :=
            public_contractors example_db @ [example_contractor 4 (Some 0)]\<rparr>)"
  by (simp add: insert_contractors_def contractors_assign_def numeric_2_1_def numeric_round_def
      floor_numeral_divide_rat contractors_violation_def contractors_rating_check_def
      check_passes_def sql_and_def sql_le_def example_contractor_def example_db_def)

text \<open>
  Claim C7, amended. An insert fails when the candidate row has a role other than pm,
  contractor or admin (NULL included), a rating that the column rounds to a value below 0
  or above 5 (a rating of -0.05 or less, or of 5.05 or more), or a status other than
  Pending, In Progress or Completed (NULL included). An update fails when the row it
  would write in place of an existing row is such a row. No client takes part in either.
\<close>

theorem storage_rejects_invalid_rows:
  "(profiles_role p \<notin> {Some ''pm'', Some ''contractor'', Some ''admin''} \<longrightarrow>
      isl (insert_profiles db p)) \<and>
   (old_p \<in> set (public_profiles db) \<and>
    profiles_role (set_p old_p) \<notin> {Some ''pm'', Some ''contractor'', Some ''admin''} \<longrightarrow>
      isl (update_profiles db (profiles_id old_p) set_p)) \<and>
   (contractors_rating k = Some x \<and> (numeric_round x < 0 \<or> 5 < numeric_round x) \<longrightarrow>
      isl (insert_contractors db k)) \<and>
   (old_k \<in> set (public_contractors db) \<and>
    contractors_rating (set_k old_k) = Some y \<and> (numeric_round y < 0 \<or> 5 < numeric_round y) \<longrightarrow>
      isl (update_contractors db (contractors_id old_k) set_k)) \<and>
   ((numeric_round z < 0 \<or> 5 < numeric_round z) = (z \<le> - (5 / 100) \<or> 505 / 100 \<le> z)) \<and>
   (jobs_status j \<notin> {Some ''Pending'', Some ''In Progress'', Some ''Completed''} \<longrightarrow>
      isl (insert_jobs db j)) \<and>
   (old_j \<in> set (public_jobs db) \<and>
    jobs_status (set_j old_j) \<notin> {Some ''Pending'', Some ''In Progress'', Some ''Completed''} \<longrightarrow>
      isl (update_jobs_table db (jobs_id old_j) set_j))"
proof (intro conjI impI)
  assume "profiles_role p \<notin> {Some ''pm'', Some ''contractor'', Some ''admin''}"
  then show "isl (insert_profiles db p)"
    by (intro insert_profiles_rejects profiles_violation_role)
next
  assume "old_p \<in> set (public_profiles db) \<and>
    profiles_role (set_p old_p) \<notin> {Some ''pm'', Some ''contractor'', Some ''admin''}"
  then show "isl (update_profiles db (profiles_id old_p) set_p)"
    by (intro update_profiles_rejects profiles_violation_role) auto
next
  assume "contractors_rating k = Some x \<and> (numeric_round x < 0 \<or> 5 < numeric_round x)"
  then show "isl (insert_contractors db k)"
    unfolding insert_contractors_outcome by (intro row_outcome_rating[of k x]) auto
next
  assume "old_k \<in> set (public_contractors db) \<and>
    contractors_rating (set_k old_k) = Some y \<and> (numeric_round y < 0 \<or> 5 < numeric_round y)"
  then show "isl (update_contractors db (contractors_id old_k) set_k)"
    by (intro update_contractors_rejects row_outcome_rating[of _ y]) auto
next
  show "(numeric_round z < 0 \<or> 5 < numeric_round z) = (z \<le> - (5 / 100) \<or> 505 / 100 \<le> z)"
    by (simp only: numeric_round_negative numeric_round_above_5)
next
  assume "jobs_status j \<notin> {Some ''Pending'', Some ''In Progress'', Some ''Completed''}"
  then show "isl (insert_jobs db j)"
    by (intro insert_jobs_rejects jobs_violation_status)
next
  assume "old_j \<in> set (public_jobs db) \<and>
    jobs_status (set_j old_j) \<notin> {Some ''Pending'', Some ''In Progress'', Some ''Completed''}"
  then show "isl (update_jobs_table db (jobs_id old_j) set_j)"
    by (intro update_jobs_table_rejects jobs_violation_status) auto
qed

theorem storage_rejects_invalid_rows_witness:
  "Some ''superuser'' \<notin> {Some ''pm'', Some ''contractor'', Some ''admin''} \<and>
   isl (insert_profiles example_db \<lparr>profiles_id = ''uid-new'', profiles_role = Some ''superuser''\<rparr>) \<and>
   isl (update_profiles example_db ''uid-pm'' (\<lambda>r. r\<lparr>profiles_role := Some ''owner''\<rparr>)) \<and>
   numeric_round (505 / 100) = 51 / 10 \<and>
   isl (insert_contractors example_db (example_contractor 4 (Some (505 / 100)))) \<and>
   numeric_round (- 5 / 100) = - 1 / 10 \<and>
   isl (update_contractors example_db 1 (\<lambda>r. r\<lparr>contractors_rating := Some (- 5 / 100)\<rparr>)) \<and>
   isl (insert_jobs example_db (example_job 5 (Some ''Cancelled'') None)) \<and>
   isl (update_jobs_table example_db 4 (\<lambda>r. r\<lparr>jobs_status := None\<rparr>))"
proof -
  have up: "numeric_round (505 / 100) = 51 / 10"
    by (simp add: numeric_round_def)
  have down: "numeric_round (- 5 / 100) = - 1 / 10"
    by (simp add: numeric_round_def)
  from up down
    storage_rejects_invalid_rows[where db = example_db
      and p = "\<lparr>profiles_id = ''uid-new'', profiles_role = Some ''superuser''\<rparr>"
      and old_p = "public_profiles example_db ! 1"
      and set_p = "\<lambda>r. r\<lparr>profiles_role := Some ''owner''\<rparr>"
      and k = "example_contractor 4 (Some (505 / 100))"
      and x = "505 / 100"
      and old_k = "public_contractors example_db ! 0"
      and set_k = "\<lambda>r. r\<lparr>contractors_rating := Some (- 5 / 100)\<rparr>"
      and y = "- 5 / 100"
      and j = "example_job 5 (Some ''Cancelled'') None"
      and old_j = "public_jobs example_db ! 3"
      and set_j = "\<lambda>r. r\<lparr>jobs_status := None\<rparr>"]
  show ?thesis
    by (simp add: example_db_def example_job_def example_contractor_def)
qed

subsection \<open>Referential actions\<close>

text \<open>
  Claim C8. After an identity is deleted, every contractor row that was linked to it is
  still in the table, the same row with user_id NULL, and the table has the same keys in
  the same order; the jobs are untouched. After a contractor is deleted, every job row
  that referred to it is still in the table, the same row with contractor_id NULL, and
  the table has the same keys in the same order.
\<close>

theorem deletes_clear_references:
  "(k \<in> set (public_contractors db) \<and> contractors_user_id k = Some uid \<longrightarrow>
      k\<lparr>contractors_user_id := None\<rparr> \<in> set (public_contractors (delete_users db uid))) \<and>
   map contractors_id (public_contractors (delete_users db uid)) =
     map contractors_id (public_contractors db) \<and>
   public_jobs (delete_users db uid) = public_jobs db \<and>
   (j \<in> set (public_jobs db) \<and> jobs_contractor_id j = Some cid \<longrightarrow>
      j\<lparr>jobs_contractor_id := None\<rparr> \<in> set (public_jobs (delete_contractors db cid))) \<and>
   map jobs_id (public_jobs (delete_contractors db cid)) = map jobs_id (public_jobs db)"
proof (intro conjI impI)
  assume "k \<in> set (public_contractors db) \<and> contractors_user_id k = Some uid"
  then show "k\<lparr>contractors_user_id := None\<rparr> \<in> set (public_contractors (delete_users db uid))"
    by (force simp: delete_users_def)
next
  show "map contractors_id (public_contractors (delete_users db uid)) =
     map contractors_id (public_contractors db)"
    by (simp add: delete_users_def)
next
  show "public_jobs (delete_users db uid) = public_jobs db"
    by (simp add: delete_users_def)
next
  assume "j \<in> set (public_jobs db) \<and> jobs_contractor_id j = Some cid"
  then show "j\<lparr>jobs_contractor_id := None\<rparr> \<in> set (public_jobs (delete_contractors db cid))"
    by (force simp: delete_contractors_def)
next
  show "map jobs_id (public_jobs (delete_contractors db cid)) = map jobs_id (public_jobs db)"
    by (simp add: delete_contractors_def)
qed

theorem deletes_clear_references_witness:
  "public_contractors example_db ! 0 \<in> set (public_contractors example_db) \<and>
   contractors_user_id (public_contractors example_db ! 0) = Some ''uid-crew'' \<and>
   (public_contractors example_db ! 0)\<lparr>contractors_user_id := None\<rparr>
     \<in> set (public_contractors (delete_users example_db ''uid-crew'')) \<and>
   map contractors_id (public_contractors (delete_users example_db ''uid-crew'')) = [1, 2, 3] \<and>
   example_job 1 (Some ''In Progress'') (Some 1) \<in> set (public_jobs example_db) \<and>
   example_job 1 (Some ''In Progress'') None \<in> set (public_jobs (delete_contractors example_db 1)) \<and>
   map jobs_id (public_jobs (delete_contractors example_db 1)) = [1, 2, 3, 4] \<and>
   map contractors_id (public_contractors (delete_contractors example_db 1)) = [2, 3]"
  using deletes_clear_references[where db = example_db
      and k = "public_contractors example_db ! 0" and uid = "''uid-crew''"
      and j = "example_job 1 (Some ''In Progress'') (Some 1)" and cid = 1]
  by (simp add: example_db_def example_job_def delete_users_def delete_contractors_def)

subsection \<open>The admin-only procedures\<close>

text \<open>
  The primary key of profiles: no two rows with one id. Inserts and deletes keep it, and
  so does an update that leaves the id alone.
\<close>

lemma insert_profiles_keeps_key:
  assumes "distinct (map profiles_id (public_profiles db))" and "insert_profiles db r = Inr db'"
  shows "distinct (map profiles_id (public_profiles db'))"
  using assms
  by (auto simp: insert_profiles_def profiles_violation_def split: option.splits if_splits)

lemma delete_users_keeps_key:
  assumes "distinct (map profiles_id (public_profiles db))"
  shows "distinct (map profiles_id (public_profiles (delete_users db k)))"
  using assms by (simp add: delete_users_def distinct_map_filter)

lemma update_profiles_keeps_key:
  assumes "\<And>r. profiles_id (set_columns r) = profiles_id r"
    and "update_profiles db k set_columns = Inr db'"
  shows "map profiles_id (public_profiles db') = map profiles_id (public_profiles db)"
proof -
  from assms(2) have "public_profiles db' =
      map (\<lambda>r. if profiles_id r = k then set_columns r else r) (public_profiles db)"
    by (auto simp: update_profiles_def Let_def split: option.splits)
  with assms(1) show ?thesis by (simp add: comp_def if_distrib cong: if_cong)
qed

text \<open>With a primary key, the rows of one key are at most one.\<close>

lemma unique_key_filter:
  assumes "distinct (map f xs)"
  shows "(map g (filter (\<lambda>x. f x = k) xs) = [v]) = (\<exists>x \<in> set xs. f x = k \<and> g x = v)"
  using assms
proof (induction xs)
  case Nil
  then show ?case by simp
next
  case (Cons a xs)
  show ?case
  proof (cases "f a = k")
    case True
    from Cons.prems have "f a \<notin> f ` set xs" by simp
    with True have none: "\<forall>x \<in> set xs. f x \<noteq> k" by (metis imageI)
    then have "filter (\<lambda>x. f x = k) xs = []"
      by (simp add: filter_empty_conv)
    with True none show ?thesis by auto
  next
    case False
    with Cons show ?thesis by auto
  qed
qed

lemma caller_is_admin_iff:
  "caller_is_admin db c =
     (\<exists>p \<in> set (public_profiles db). auth_uid c = Some (profiles_id p) \<and> profiles_role p = Some ''admin'')"
  by (auto simp: caller_is_admin_def list_ex_iff is_true_def sql_and_true sql_eq_true)

text \<open>The check inside the procedures and the role the policies look up agree.\<close>

lemma select_caller_role_admin_iff:
  assumes "distinct (map profiles_id (public_profiles db))"
  shows "(select_caller_role db c = Inr (Some ''admin'')) = caller_is_admin db c"
proof (cases "auth_uid c")
  case None
  then show ?thesis
    by (simp add: select_caller_role_def caller_is_admin_iff is_true_sql_eq)
next
  case (Some u)
  have "filter (\<lambda>p. is_true (sql_eq (Some (profiles_id p)) (auth_uid c))) (public_profiles db) =
        filter (\<lambda>p. profiles_id p = u) (public_profiles db)"
    using Some by (intro filter_cong) (auto simp: is_true_sql_eq)
  then have "(select_caller_role db c = Inr (Some ''admin'')) =
      (map profiles_role (filter (\<lambda>p. profiles_id p = u) (public_profiles db)) = [Some ''admin''])"
    by (simp add: select_caller_role_def scalar_subquery_Some)
  also have "\<dots> = (\<exists>p \<in> set (public_profiles db). profiles_id p = u \<and> profiles_role p = Some ''admin'')"
    by (rule unique_key_filter[OF assms])
  also have "\<dots> = caller_is_admin db c"
    using Some by (auto simp: caller_is_admin_iff)
  finally show ?thesis .
qed

text \<open>
  Claim C2. In a database whose profiles have distinct keys (the primary key), a caller
  whose role in profiles is not admin (another role, no profile row, or no identity) gets
  from \<open>get_all_users\<close> the exception and no rows, and from \<open>delete_user\<close> the exception
  and the database as it was.
\<close>

theorem admin_procedures_deny_non_admin:
  assumes "distinct (map profiles_id (public_profiles db))"
    and "select_caller_role db c \<noteq> Inr (Some ''admin'')"
  shows "get_all_users db c = Inl (raise_exception ''Only admins can view all users'') \<and>
         delete_user db c user_id = (Inl (raise_exception ''Only admins can delete users''), db)"
proof -
  from assms have "\<not> caller_is_admin db c"
    by (simp add: select_caller_role_admin_iff)
  then show ?thesis by (simp add: get_all_users_def delete_user_def)
qed

theorem admin_procedures_deny_non_admin_witness:
  "distinct (map profiles_id (public_profiles example_db)) \<and>
   select_caller_role example_db (example_caller ''uid-pm'') = Inr (Some ''pm'') \<and>
   get_all_users example_db (example_caller ''uid-pm'') =
     Inl (raise_exception ''Only admins can view all users'') \<and>
   delete_user example_db (example_caller ''uid-pm'') ''uid-crew'' =
     (Inl (raise_exception ''Only admins can delete users''), example_db) \<and>
   select_caller_role example_db (example_caller ''uid-new'') = Inr None \<and>
   delete_user example_db (example_caller ''uid-new'') ''uid-crew'' =
     (Inl (raise_exception ''Only admins can delete users''), example_db)"
proof -
  have keys: "distinct (map profiles_id (public_profiles example_db))"
    by (simp add: example_db_def)
  have pm: "select_caller_role example_db (example_caller ''uid-pm'') = Inr (Some ''pm'')"
    by (simp add: select_caller_role_def example_db_def example_caller_def is_true_def sql_eq_def)
  have new: "select_caller_role example_db (example_caller ''uid-new'') = Inr None"
    by (simp add: select_caller_role_def example_db_def example_caller_def is_true_def sql_eq_def)
  from keys pm new
    admin_procedures_deny_non_admin[of example_db "example_caller ''uid-pm''" "''uid-crew''"]
    admin_procedures_deny_non_admin[of example_db "example_caller ''uid-new''" "''uid-crew''"]
  show ?thesis by simp
qed

text \<open>For an admin the procedures run: the listing joins users and profiles, the deletion cascades.\<close>

lemma admin_procedures_run:
  assumes "caller_is_admin db c"
  shows "get_all_users db c =
           Inr (concat (map (\<lambda>u.
             map (\<lambda>p. (users_id u, users_email u, profiles_role p, users_created_at u))
               (filter (\<lambda>p. users_id u = profiles_id p) (public_profiles db)))
             (auth_users db)))"
    and "delete_user db c user_id = (Inr (), delete_users db user_id)"
  using assms by (simp_all add: get_all_users_def delete_user_def)

subsection \<open>What the policy expressions grant\<close>

text \<open>
  The lemmas of this subsection read the expressions on the tables as they are. They say
  what each policy is written to grant; whether a statement gets that far is the subject
  of the next subsection.
\<close>

lemma caller_role_is_value:
  "select_caller_role db c = Inr v \<Longrightarrow>
     expr_value (caller_role_is r) db c row = Inr (sql_eq v (Some r))"
  by (simp add: caller_role_is_def)

lemma holds_caller_role_is:
  "select_caller_role db c = Inr v \<Longrightarrow> holds (Some (caller_role_is r)) db c row = (v = Some r)"
  by (auto simp: holds_def caller_role_is_def sql_eq_def split: option.splits)

lemma own_contractor_ids:
  "(Some v \<in> set (map (\<lambda>k. Some (contractors_id k))
        (filter (\<lambda>k. is_true (sql_eq (contractors_user_id k) u)) ks))) =
   (\<exists>k \<in> set ks. contractors_id k = v \<and> contractors_user_id k \<noteq> None \<and> contractors_user_id k = u)"
  by (auto simp: is_true_sql_eq)

lemma holds_assigned_contractor:
  assumes "select_caller_role db c = Inr v"
  shows "holds (Some assigned_contractor) db c job =
     (v = Some ''contractor'' \<and>
      (\<exists>k \<in> set (public_contractors db). jobs_contractor_id job = Some (contractors_id k) \<and>
          contractors_user_id k \<noteq> None \<and> contractors_user_id k = auth_uid c))"
proof -
  have "holds (Some assigned_contractor) db c job =
      (sql_eq v (Some ''contractor'') = Some True \<and>
       sql_in (jobs_contractor_id job)
         (map (\<lambda>k. Some (contractors_id k))
            (filter (\<lambda>k. is_true (sql_eq (contractors_user_id k) (auth_uid c)))
               (public_contractors db))) = Some True)"
    by (simp add: holds_def assigned_contractor_def caller_role_is_value[OF assms] sql_and_true)
  also have "\<dots> = (v = Some ''contractor'' \<and>
      (\<exists>k \<in> set (public_contractors db). jobs_contractor_id job = Some (contractors_id k) \<and>
          contractors_user_id k \<noteq> None \<and> contractors_user_id k = auth_uid c))"
    unfolding sql_in_true own_contractor_ids sql_eq_true by auto
  finally show ?thesis .
qed

lemma holds_simps:
  "holds None db c row = False"
  "holds (Some sql_true) db c row = True"
  "holds (Some own_profile) db c p = (auth_uid c = Some (profiles_id p))"
  by (auto simp: holds_def sql_true_def own_profile_def sql_eq_def split: option.splits)

lemma select_caller_role_no_profile:
  assumes "auth_uid c = Some u" and "u \<notin> profiles_id ` set (public_profiles db)"
  shows "select_caller_role db c = Inr None"
proof -
  have "filter (\<lambda>p. is_true (sql_eq (Some (profiles_id p)) (auth_uid c))) (public_profiles db) = []"
    using assms by (auto simp: filter_empty_conv is_true_sql_eq)
  then show ?thesis by (simp add: select_caller_role_def)
qed

text \<open>
  For a caller whose role is contractor, the expressions of the jobs policies let a job
  be read or updated exactly when its contractor_id is the key of a contractor row whose
  user_id is the caller's identity.
\<close>

lemma contractor_expressions:
  assumes "select_caller_role db c = Inr (Some ''contractor'')" and "cmd = SELECT \<or> cmd = UPDATE"
  shows "using_permits jobs_policies db c cmd job =
           (\<exists>k \<in> set (public_contractors db). jobs_contractor_id job = Some (contractors_id k) \<and>
               contractors_user_id k \<noteq> None \<and> contractors_user_id k = auth_uid c)"
  using assms(2)
  by (auto simp: using_permits_def jobs_policies_def applies_def holds_simps
        holds_caller_role_is[OF assms(1)] holds_assigned_contractor[OF assms(1)])

text \<open>
  For an authenticated caller with no profile row, the expressions grant nothing on jobs,
  the read and nothing else on contractors, and on profiles the read of a row with the
  caller's key, which the table does not hold.
\<close>

lemma no_profile_expressions:
  assumes "caller_db_role c = authenticated" and "auth_uid c = Some u"
    and "u \<notin> profiles_id ` set (public_profiles db)"
  shows "(\<forall>op. \<not> permitted jobs_policies db c op) \<and>
         (\<forall>op. permitted contractors_policies db c op = (\<exists>r. op = read_row r)) \<and>
         (\<forall>op. permitted profiles_policies db c op = (\<exists>r. op = read_row r \<and> profiles_id r = u)) \<and>
         (\<forall>r \<in> set (public_profiles db). \<not> permitted profiles_policies db c (read_row r))"
proof -
  note role = select_caller_role_no_profile[OF assms(2,3)]
  have jobs: "\<not> permitted jobs_policies db c op" for op
    by (cases op) (auto simp: using_permits_def with_check_permits_def with_check_of_def
        jobs_policies_def applies_def holds_simps holds_caller_role_is[OF role]
        holds_assigned_contractor[OF role])
  have cons: "permitted contractors_policies db c op = (\<exists>r. op = read_row r)" for op
    using assms(1)
    by (cases op) (auto simp: using_permits_def with_check_permits_def with_check_of_def
        contractors_policies_def applies_def holds_simps holds_caller_role_is[OF role])
  have prof: "permitted profiles_policies db c op = (\<exists>r. op = read_row r \<and> profiles_id r = u)" for op
    using assms(2)
    by (cases op) (auto simp: using_permits_def with_check_permits_def with_check_of_def
        profiles_policies_def applies_def holds_simps holds_caller_role_is[OF role])
  have "\<not> permitted profiles_policies db c (read_row r)" if "r \<in> set (public_profiles db)" for r
    using that assms(3) prof[of "read_row r"] by auto
  with jobs cons prof show ?thesis by blast
qed

text \<open>
  For a caller whose role is pm, the expressions of the contractors policies grant every
  operation: the policy named for creating and updating is written \<^verbatim>\<open>FOR ALL\<close>, which
  takes in \<^verbatim>\<open>DELETE\<close>.
\<close>

lemma pm_expressions:
  assumes "select_caller_role db c = Inr (Some ''pm'')"
  shows "permitted contractors_policies db c op"
  by (cases op) (auto simp: using_permits_def with_check_permits_def with_check_of_def
        contractors_policies_def applies_def holds_simps holds_caller_role_is[OF assms])

subsection \<open>What a statement under row level security does\<close>

text \<open>
  Every policy expression of the script but two (\<^verbatim>\<open>true\<close> and \<^verbatim>\<open>auth.uid() = id\<close>)
  starts with the subquery on \<^verbatim>\<open>public.profiles\<close>, and on each table a policy with it
  applies to every command and every role.
\<close>

lemma relation_sublinks_profiles_first:
  "\<exists>rest. relation_sublinks rel c cmd = rel_profiles # rest"
  by (cases rel; cases cmd; cases "caller_db_role c")
     (simp_all add: relation_sublinks_def added_expressions_def applies_def List.map_filter_def
        profiles_policies_def contractors_policies_def jobs_policies_def with_check_of_def
        caller_role_is_def own_profile_def sql_true_def assigned_contractor_def)

lemma fireRIRrules_active:
  assumes "rel \<in> set activeRIRs"
  shows "fireRIRrules c activeRIRs cmd rel = Some (infinite_recursion_in_policy rel)"
  using assms relation_sublinks_profiles_first[of rel c cmd]
  by (subst fireRIRrules.simps) auto

text \<open>
  The policy \<^verbatim>\<open>Allow admin full access on profiles\<close> is a policy on
  \<^verbatim>\<open>public.profiles\<close> whose expression reads \<^verbatim>\<open>public.profiles\<close>: reading that
  table under row level security is rejected.
\<close>

lemma fireRIRrules_profiles:
  "fireRIRrules c activeRIRs SELECT rel_profiles = Some (infinite_recursion_in_policy rel_profiles)"
proof (cases "rel_profiles \<in> set activeRIRs")
  case True
  then show ?thesis by (rule fireRIRrules_active)
next
  case False
  obtain rest where "relation_sublinks rel_profiles c SELECT = rel_profiles # rest"
    using relation_sublinks_profiles_first by blast
  with False show ?thesis
    by (subst fireRIRrules.simps) (simp add: fireRIRrules_active)
qed

text \<open>So is every statement on any of the three tables, of any caller, for any command.\<close>

lemma every_statement_fails:
  "fireRIRrules c [] cmd rel = Some (infinite_recursion_in_policy rel_profiles)"
proof -
  obtain rest where "relation_sublinks rel c cmd = rel_profiles # rest"
    using relation_sublinks_profiles_first by blast
  then show ?thesis
    by (subst fireRIRrules.simps) (simp add: fireRIRrules_profiles)
qed

lemma access_fails:
  "profiles_access db c op = Inl (infinite_recursion_in_policy rel_profiles)"
  "contractors_access db c op' = Inl (infinite_recursion_in_policy rel_profiles)"
  "jobs_access db c op'' = Inl (infinite_recursion_in_policy rel_profiles)"
  by (simp_all add: profiles_access_def contractors_access_def jobs_access_def row_security_def
      every_statement_fails)

lemma example_roles:
  "select_caller_role example_db (example_caller ''uid-crew'') = Inr (Some ''contractor'')"
  "select_caller_role example_db (example_caller ''uid-pm'') = Inr (Some ''pm'')"
  "select_caller_role example_db (example_caller ''uid-new'') = Inr None"
  by (simp_all add: select_caller_role_def example_db_def example_caller_def is_true_def sql_eq_def)

text \<open>
  Claim C1, at a failing input. The caller is the contractor login linked to contractor 1,
  the row is job 1, assigned to contractor 1. The expressions of the jobs policies let the
  caller read and update the row, as the claim says; the statements that read and update
  it fail with the recursion error, so the caller reads and updates no job.
\<close>

theorem contractor_own_job_statement_fails:
  "select_caller_role example_db (example_caller ''uid-crew'') = Inr (Some ''contractor'') \<and>
   using_permits jobs_policies example_db (example_caller ''uid-crew'') SELECT
     (example_job 1 (Some ''In Progress'') (Some 1)) \<and>
   using_permits jobs_policies example_db (example_caller ''uid-crew'') UPDATE
     (example_job 1 (Some ''In Progress'') (Some 1)) \<and>
   jobs_access example_db (example_caller ''uid-crew'')
     (read_row (example_job 1 (Some ''In Progress'') (Some 1))) =
       Inl (infinite_recursion_in_policy rel_profiles) \<and>
   jobs_access example_db (example_caller ''uid-crew'')
     (update_row (example_job 1 (Some ''In Progress'') (Some 1))
                 (example_job 1 (Some ''Completed'') (Some 1))) =
       Inl (infinite_recursion_in_policy rel_profiles)"
proof -
  have "using_permits jobs_policies example_db (example_caller ''uid-crew'') cmd
          (example_job 1 (Some ''In Progress'') (Some 1))"
    if "cmd = SELECT \<or> cmd = UPDATE" for cmd
    using contractor_expressions[OF example_roles(1) that]
    by (simp add: example_db_def example_caller_def example_job_def)
  then show ?thesis
    by (simp add: example_roles access_fails)
qed

text \<open>
  Claim C3, at a failing input. The caller is authenticated and has no profile row. The
  expressions grant the read of contractors, as the claim says; the statement that reads
  contractors fails with the recursion error, as does every other statement of the caller.
\<close>

theorem no_profile_read_of_contractors_fails:
  "select_caller_role example_db (example_caller ''uid-new'') = Inr None \<and>
   permitted contractors_policies example_db (example_caller ''uid-new'')
     (read_row (public_contractors example_db ! 0)) \<and>
   contractors_access example_db (example_caller ''uid-new'')
     (read_row (public_contractors example_db ! 0)) =
       Inl (infinite_recursion_in_policy rel_profiles) \<and>
   jobs_access example_db (example_caller ''uid-new'')
     (read_row (example_job 4 (Some ''Pending'') None)) =
       Inl (infinite_recursion_in_policy rel_profiles)"
proof -
  have caller: "caller_db_role (example_caller ''uid-new'') = authenticated"
    "auth_uid (example_caller ''uid-new'') = Some ''uid-new''"
    by (simp_all add: example_caller_def)
  have absent: "''uid-new'' \<notin> profiles_id ` set (public_profiles example_db)"
    by (simp add: example_db_def)
  from no_profile_expressions[OF caller absent]
  have "permitted contractors_policies example_db (example_caller ''uid-new'') op =
          (\<exists>r. op = read_row r)" for op
    by blast
  then have "permitted contractors_policies example_db (example_caller ''uid-new'')
          (read_row (public_contractors example_db ! 0))"
    by blast
  then show ?thesis
    by (simp add: example_roles access_fails)
qed

text \<open>
  Claim C4, at a failing input. The caller is the property manager. The statements that
  read, create and update contractors fail with the recursion error, where the claim has
  them permitted. The expressions themselves would let the caller delete a contractor,
  where the claim has deletion not permitted.
\<close>

theorem pm_contractors_statements_fail:
  "select_caller_role example_db (example_caller ''uid-pm'') = Inr (Some ''pm'') \<and>
   contractors_access example_db (example_caller ''uid-pm'')
     (read_row (public_contractors example_db ! 0)) =
       Inl (infinite_recursion_in_policy rel_profiles) \<and>
   contractors_access example_db (example_caller ''uid-pm'')
     (create_row ((public_contractors example_db ! 2)\<lparr>contractors_id := 4\<rparr>)) =
       Inl (infinite_recursion_in_policy rel_profiles) \<and>
   contractors_access example_db (example_caller ''uid-pm'')
     (update_row (public_contractors example_db ! 2)
        ((public_contractors example_db ! 2)\<lparr>contractors_rating := Some 5\<rparr>)) =
       Inl (infinite_recursion_in_policy rel_profiles) \<and>
   permitted contractors_policies example_db (example_caller ''uid-pm'')
     (delete_row (public_contractors example_db ! 0))"
  by (simp only: example_roles access_fails pm_expressions[OF example_roles(2)] simp_thms)


end
